theory Spec2Isabelle
  imports Complex_Main
begin

section \<open>Data model of \<open>src/lib/clipsService.ts\<close>\<close>

text \<open>
  The interfaces \<open>Clip\<close>, \<open>Film\<close> and \<open>WatchProgress\<close>. A JavaScript \<open>number\<close> that
  is used as an index or a count is an \<open>int\<close>; one that is a time in seconds is a \<open>real\<close>
  (the double's rounding is not modelled). An optional property (\<open>isPremium?: boolean\<close>)
  is a \<open>bool option\<close>, \<open>None\<close> being \<open>undefined\<close>. Fields \<open>id\<close>, \<open>title\<close>, \<open>order\<close> and the
  ones two interfaces share carry the interface's name as a prefix.
\<close>

record Clip =
  clip_id :: string
  clip_title :: string
  hlsUrl :: string
  clip_duration :: real
  clip_order :: int
  isPremium :: "bool option"

record Film =
  film_id :: string
  film_title :: string
  description :: string
  coverImageUrl :: string
  clips :: "Clip list"
  film_currentClipIndex :: int
  film_lastWatchedAt :: string
  totalClips :: int
  freeClipLimit :: int
  film_isPremium :: "bool option"

record WatchProgress =
  filmId :: string
  currentClipIndex :: int
  currentTime :: real
  lastWatchedAt :: string
  userId :: string

subsection \<open>JavaScript values\<close>

text \<open>
  \<open>xs[i]\<close> on an array is \<open>undefined\<close> outside \<open>0 \<le> i < xs.length\<close>; it never raises.
\<close>

definition array_get :: "'a list \<Rightarrow> int \<Rightarrow> 'a option" where
  "array_get xs i = (if 0 \<le> i \<and> i < int (length xs) then Some (xs ! nat i) else None)"

text \<open>Truthiness of an optional boolean and of a string (the empty string is falsy).\<close>

definition truthy_flag :: "bool option \<Rightarrow> bool" where
  "truthy_flag b = (b = Some True)"

definition truthy_string :: "string \<Rightarrow> bool" where
  "truthy_string s = (s \<noteq> [])"

subsection \<open>Access and navigation helpers\<close>

definition canAccessClip :: "Film \<Rightarrow> int \<Rightarrow> bool \<Rightarrow> bool" where
  "canAccessClip film clipIndex userHasPremium =
     (case array_get (clips film) clipIndex of
        None \<Rightarrow> False
      | Some clip \<Rightarrow>
          if \<not> truthy_flag (isPremium clip) then True
          else if userHasPremium then True
          else clipIndex < freeClipLimit film)"

definition canGoToNextClip :: "Film \<Rightarrow> int \<Rightarrow> bool" where
  "canGoToNextClip film idx = (idx < int (length (clips film)) - 1)"

definition canGoToPreviousClip :: "int \<Rightarrow> bool" where
  "canGoToPreviousClip idx = (idx > 0)"

text \<open>
  \<open>Number.isSafeInteger\<close>: an integer of absolute value at most \<open>2\<^sup>5\<^sup>3 - 1\<close>. On safe
  integers \<open>+ 1\<close> and \<open>- 1\<close> on doubles are exact, so the two functions below agree with
  \<open>Math.min(currentIndex + 1, totalClips - 1)\<close> and \<open>Math.max(currentIndex - 1, 0)\<close> there;
  beyond that range the doubles round and the functions are not meant.
\<close>

definition safe_integer :: "int \<Rightarrow> bool" where
  "safe_integer x = (- (2 ^ 53 - 1) \<le> x \<and> x \<le> 2 ^ 53 - 1)"

definition getNextClipIndex :: "int \<Rightarrow> int \<Rightarrow> int" where
  "getNextClipIndex currentIndex total_clips = min (currentIndex + 1) (total_clips - 1)"

definition getPreviousClipIndex :: "int \<Rightarrow> int" where
  "getPreviousClipIndex currentIndex = max (currentIndex - 1) 0"

text \<open>
  The film of the specification's scenario: five clips, the first two free previews, the
  other three premium, \<open>freeClipLimit = 2\<close>.
\<close>

definition scenario_clip :: "int \<Rightarrow> bool \<Rightarrow> Clip" where
  "scenario_clip n premium =
     \<lparr>clip_id = ''c'', clip_title = ''Clip'', hlsUrl = ''u'', clip_duration = 30,
      clip_order = n, isPremium = Some premium\<rparr>"

definition scenario_film :: Film where
  "scenario_film =
     \<lparr>film_id = ''f1'', film_title = ''Film'', description = [], coverImageUrl = [],
      clips = [scenario_clip 0 False, scenario_clip 1 False, scenario_clip 2 True,
               scenario_clip 3 True, scenario_clip 4 True],
      film_currentClipIndex = 0, film_lastWatchedAt = [], totalClips = 5,
      freeClipLimit = 2, film_isPremium = Some False\<rparr>"

section \<open>The collaborators of the service\<close>

text \<open>
  The service talks to two stores: the on-device key-value store (AsyncStorage) and the
  \<open>watch_progress\<close> table behind the Supabase client. Both are state of a \<open>world\<close>, next to
  the console and the list of calls made so far, in order.

  A string held by AsyncStorage is represented by what the read path can tell apart: the
  empty string (falsy), a text that \<open>JSON.parse\<close> rejects, the text \<open>null\<close>, and the
  serialisation of a progress record (\<open>JSON.parse (JSON.stringify p)\<close> is \<open>p\<close> again).
\<close>

datatype stored = EmptyString | Malformed | JsonNull | JsonProgress WatchProgress

record progress_row =
  user_id :: string
  film_id_col :: string
  current_clip_index :: int
  playback_time :: real
  last_watched_at :: string
  updated_at :: string

datatype call =
    SetItem string stored
  | GetItem string
  | Upsert progress_row
  | SelectSingle string string

text \<open>
  Modelled from the spec: the \<open>watch_progress\<close> table is declared outside \<open>src/\<close>; it holds
  one row per pair of user id and film id (the upsert is "keyed by (userId, filmId)").
\<close>

record world =
  asyncStorage :: "string \<rightharpoonup> stored"
  watch_progress :: "(string \<times> string) \<rightharpoonup> progress_row"
  console :: "string list"
  calls :: "call list"

text \<open>
  What the outside does to one call is given by an environment: an AsyncStorage promise
  resolves or rejects; a Supabase request answers, answers with an \<open>error\<close> object, or
  throws. \<open>now\<close> is \<open>new Date().toISOString()\<close>.
\<close>

datatype io_mode = Succeeds | Fails

datatype remote_mode = Answers | AnswersError | Throws

record env =
  setItem_mode :: io_mode
  getItem_mode :: io_mode
  upsert_mode :: remote_mode
  select_mode :: remote_mode
  now :: string

text \<open>An awaited promise either resolves with a value or rejects with an error.\<close>

datatype 'a completion = Resolved 'a | Rejected string

definition AsyncStorage_setItem ::
  "env \<Rightarrow> string \<Rightarrow> stored \<Rightarrow> world \<Rightarrow> unit completion \<times> world" where
  "AsyncStorage_setItem e k v w =
     (let w1 = w\<lparr>calls := calls w @ [SetItem k v]\<rparr> in
      case setItem_mode e of
        Succeeds \<Rightarrow> (Resolved (), w1\<lparr>asyncStorage := (asyncStorage w1)(k \<mapsto> v)\<rparr>)
      | Fails \<Rightarrow> (Rejected ''setItem'', w1))"

definition AsyncStorage_getItem ::
  "env \<Rightarrow> string \<Rightarrow> world \<Rightarrow> stored option completion \<times> world" where
  "AsyncStorage_getItem e k w =
     (let w1 = w\<lparr>calls := calls w @ [GetItem k]\<rparr> in
      case getItem_mode e of
        Succeeds \<Rightarrow> (Resolved (asyncStorage w1 k), w1)
      | Fails \<Rightarrow> (Rejected ''getItem'', w1))"

text \<open>
  \<open>supabase.from('watch_progress').upsert(row)\<close> resolves to \<open>{error}\<close>; the row is stored
  only when the request answers without error.
\<close>

definition supabase_upsert ::
  "env \<Rightarrow> progress_row \<Rightarrow> world \<Rightarrow> string option completion \<times> world" where
  "supabase_upsert e row w =
     (let w1 = w\<lparr>calls := calls w @ [Upsert row]\<rparr> in
      case upsert_mode e of
        Answers \<Rightarrow>
          (Resolved None,
           w1\<lparr>watch_progress := (watch_progress w1)((user_id row, film_id_col row) \<mapsto> row)\<rparr>)
      | AnswersError \<Rightarrow> (Resolved (Some ''upsert''), w1)
      | Throws \<Rightarrow> (Rejected ''network'', w1))"

text \<open>
  \<open>select('*').eq('user_id', u).eq('film_id', f).single()\<close> resolves to \<open>{data, error}\<close>:
  the row when there is one, and an error without data when there is none.
\<close>

definition supabase_select_single ::
  "env \<Rightarrow> string \<Rightarrow> string \<Rightarrow> world \<Rightarrow>
     (progress_row option \<times> string option) completion \<times> world" where
  "supabase_select_single e u f w =
     (let w1 = w\<lparr>calls := calls w @ [SelectSingle u f]\<rparr> in
      case select_mode e of
        Answers \<Rightarrow>
          (case watch_progress w1 (u, f) of
             Some row \<Rightarrow> (Resolved (Some row, None), w1)
           | None \<Rightarrow> (Resolved (None, Some ''no rows''), w1))
      | AnswersError \<Rightarrow> (Resolved (None, Some ''select''), w1)
      | Throws \<Rightarrow> (Rejected ''network'', w1))"

definition console_error :: "string \<Rightarrow> world \<Rightarrow> world" where
  "console_error msg w = w\<lparr>console := console w @ [msg]\<rparr>"

section \<open>The progress service (\<open>ClipsService\<close>)\<close>

definition STORAGE_KEY :: string where
  "STORAGE_KEY = ''tinky_watch_progress''"

text \<open>The template literal \<open>`${STORAGE_KEY}_${filmId}`\<close> of both local functions.\<close>

definition storage_key :: "string \<Rightarrow> string" where
  "storage_key fid = STORAGE_KEY @ ''_'' @ fid"

definition getLocalProgress ::
  "env \<Rightarrow> string \<Rightarrow> world \<Rightarrow> WatchProgress option completion \<times> world" where
  "getLocalProgress e fid w =
     (case AsyncStorage_getItem e (storage_key fid) w of
        (Resolved item, w1) \<Rightarrow>
          (case item of
             None \<Rightarrow> (Resolved None, w1)
           | Some EmptyString \<Rightarrow> (Resolved None, w1)
           | Some Malformed \<Rightarrow>
               (Resolved None, console_error ''Error loading local progress:'' w1)
           | Some JsonNull \<Rightarrow> (Resolved None, w1)
           | Some (JsonProgress p) \<Rightarrow> (Resolved (Some p), w1))
      | (Rejected err, w1) \<Rightarrow>
          (Resolved None, console_error ''Error loading local progress:'' w1))"

definition saveLocalProgress ::
  "env \<Rightarrow> WatchProgress \<Rightarrow> world \<Rightarrow> unit completion \<times> world" where
  "saveLocalProgress e progress w =
     (case AsyncStorage_setItem e (storage_key (filmId progress)) (JsonProgress progress) w of
        (Resolved u, w1) \<Rightarrow> (Resolved (), w1)
      | (Rejected err, w1) \<Rightarrow>
          (Resolved (), console_error ''Error saving local progress:'' w1))"

definition cloud_row :: "env \<Rightarrow> WatchProgress \<Rightarrow> progress_row" where
  "cloud_row e progress =
     \<lparr>user_id = userId progress,
      film_id_col = filmId progress,
      current_clip_index = currentClipIndex progress,
      playback_time = currentTime progress,
      last_watched_at = lastWatchedAt progress,
      updated_at = now e\<rparr>"

definition syncProgressToCloud ::
  "env \<Rightarrow> WatchProgress \<Rightarrow> world \<Rightarrow> unit completion \<times> world" where
  "syncProgressToCloud e progress w =
     (case supabase_upsert e (cloud_row e progress) w of
        (Resolved err, w1) \<Rightarrow>
          (case err of
             Some x \<Rightarrow> (Resolved (), console_error ''Error syncing progress to cloud:'' w1)
           | None \<Rightarrow> (Resolved (), w1))
      | (Rejected x, w1) \<Rightarrow>
          (Resolved (), console_error ''Error syncing progress to cloud:'' w1))"

definition progress_of_row :: "progress_row \<Rightarrow> WatchProgress" where
  "progress_of_row d =
     \<lparr>filmId = film_id_col d,
      currentClipIndex = current_clip_index d,
      currentTime = playback_time d,
      lastWatchedAt = last_watched_at d,
      userId = user_id d\<rparr>"

definition getCloudProgress ::
  "env \<Rightarrow> string \<Rightarrow> string \<Rightarrow> world \<Rightarrow> WatchProgress option completion \<times> world" where
  "getCloudProgress e uid fid w =
     (case supabase_select_single e uid fid w of
        (Resolved (d, err), w1) \<Rightarrow>
          (case (err, d) of
             (None, Some row) \<Rightarrow> (Resolved (Some (progress_of_row row)), w1)
           | other \<Rightarrow> (Resolved None, w1))
      | (Rejected x, w1) \<Rightarrow>
          (Resolved None, console_error ''Error getting cloud progress:'' w1))"

text \<open>
  \<open>userId: string | null\<close>: \<open>None\<close> is \<open>null\<close>; \<open>null\<close> and the empty string are falsy.
  An \<open>await\<close> hands a rejection on to the caller.
\<close>

definition truthy_id :: "string option \<Rightarrow> bool" where
  "truthy_id u = (case u of None \<Rightarrow> False | Some s \<Rightarrow> truthy_string s)"

definition getWatchProgress ::
  "env \<Rightarrow> string option \<Rightarrow> string \<Rightarrow> world \<Rightarrow> WatchProgress option completion \<times> world"
  where
  "getWatchProgress e uid fid w =
     (case uid of
        None \<Rightarrow> getLocalProgress e fid w
      | Some u \<Rightarrow>
          if truthy_string u then
            (case getCloudProgress e u fid w of
               (Resolved (Some cloudProgress), w1) \<Rightarrow> (Resolved (Some cloudProgress), w1)
             | (Resolved None, w1) \<Rightarrow> getLocalProgress e fid w1
             | (Rejected x, w1) \<Rightarrow> (Rejected x, w1))
          else getLocalProgress e fid w)"

definition saveWatchProgress ::
  "env \<Rightarrow> WatchProgress \<Rightarrow> world \<Rightarrow> unit completion \<times> world" where
  "saveWatchProgress e progress w =
     (case saveLocalProgress e progress w of
        (Resolved u, w1) \<Rightarrow>
          (if truthy_string (userId progress) then syncProgressToCloud e progress w1
           else (Resolved (), w1))
      | (Rejected x, w1) \<Rightarrow> (Rejected x, w1))"

section \<open>The watch screen (\<open>src/app/tabs/watch.tsx\<close>)\<close>

text \<open>
  The component's state: the loaded film, the signed-in user's id (\<open>user?.id\<close>), the current
  clip index, the last progress record, and the alerts raised so far. Each handler is taken
  to run to its end before the next event is handled.
\<close>

record watch_state =
  watch_film :: "Film option"
  watch_user :: "string option"
  watch_currentClipIndex :: int
  watchProgress :: "WatchProgress option"
  alerts :: "string list"

text \<open>\<open>user?.id || ''\<close>.\<close>

definition user_id_or_empty :: "string option \<Rightarrow> string" where
  "user_id_or_empty u = (case u of None \<Rightarrow> [] | Some s \<Rightarrow> if truthy_string s then s else [])"

definition saveProgress ::
  "env \<Rightarrow> int \<Rightarrow> real \<Rightarrow> watch_state \<times> world \<Rightarrow> watch_state \<times> world" where
  "saveProgress e clipIndex t sw =
     (case sw of (ws, w) \<Rightarrow>
        (case watch_film ws of
           None \<Rightarrow> (ws, w)
         | Some f \<Rightarrow>
             (let progress =
                \<lparr>filmId = film_id f,
                 currentClipIndex = clipIndex,
                 currentTime = t,
                 lastWatchedAt = now e,
                 userId = user_id_or_empty (watch_user ws)\<rparr>
              in case saveWatchProgress e progress w of
                   (Resolved u, w1) \<Rightarrow> (ws\<lparr>watchProgress := Some progress\<rparr>, w1)
                 | (Rejected x, w1) \<Rightarrow> (ws, console_error ''Error saving progress:'' w1))))"

definition handleClipChange ::
  "env \<Rightarrow> int \<Rightarrow> watch_state \<times> world \<Rightarrow> watch_state \<times> world" where
  "handleClipChange e clipIndex sw =
     (case sw of (ws, w) \<Rightarrow>
        (case watch_film ws of
           None \<Rightarrow> (ws, w)
         | Some f \<Rightarrow>
             if \<not> canAccessClip f clipIndex False
             then (ws\<lparr>alerts := alerts ws @ [''Premium Content'']\<rparr>, w)
             else saveProgress e clipIndex 0 (ws\<lparr>watch_currentClipIndex := clipIndex\<rparr>, w)))"

text \<open>
  \<open>Math.floor(currentTime) % 10 === 0\<close>: the remainder of JavaScript takes the sign of the
  dividend, and it is zero exactly when 10 divides the floor, as for \<open>mod\<close>.
\<close>

definition on_save_second :: "real \<Rightarrow> bool" where
  "on_save_second t = (\<lfloor>t\<rfloor> mod 10 = 0)"

definition handleProgress ::
  "env \<Rightarrow> int \<Rightarrow> real \<Rightarrow> real \<Rightarrow> watch_state \<times> world \<Rightarrow> watch_state \<times> world" where
  "handleProgress e clipIndex t dur sw =
     (if on_save_second t then saveProgress e clipIndex t sw else sw)"

text \<open>A stream of playback ticks of one clip, handled in the order delivered.\<close>

fun report_ticks ::
  "env \<Rightarrow> int \<Rightarrow> real \<Rightarrow> real list \<Rightarrow> watch_state \<times> world \<Rightarrow> watch_state \<times> world" where
  "report_ticks e clipIndex dur [] sw = sw"
| "report_ticks e clipIndex dur (t # ts) sw =
     report_ticks e clipIndex dur ts (handleProgress e clipIndex t dur sw)"

text \<open>The positions the persisted writes carry, in the order written.\<close>

fun written_position :: "call \<Rightarrow> real list" where
  "written_position (SetItem k (JsonProgress p)) = [currentTime p]"
| "written_position c = []"

definition written_positions :: "world \<Rightarrow> real list" where
  "written_positions w = concat (map written_position (calls w))"

text \<open>Three ticks per second over thirty seconds: the positions \<open>k / 3\<close> for \<open>k = 0, ..., 90\<close>.\<close>

definition ticks_3hz :: "real list" where
  "ticks_3hz = map (\<lambda>k. real k / 3) [0..<91]"

definition world0 :: world where
  "world0 = \<lparr>asyncStorage = Map.empty, watch_progress = Map.empty, console = [], calls = []\<rparr>"

definition env_ok :: env where
  "env_ok = \<lparr>setItem_mode = Succeeds, getItem_mode = Succeeds, upsert_mode = Answers,
              select_mode = Answers, now = ''2025-01-01T00:00:00.000Z''\<rparr>"

definition env_offline :: env where
  "env_offline = \<lparr>setItem_mode = Succeeds, getItem_mode = Succeeds, upsert_mode = Throws,
              select_mode = Throws, now = ''2025-01-01T00:00:00.000Z''\<rparr>"

definition env_broken :: env where
  "env_broken = \<lparr>setItem_mode = Fails, getItem_mode = Fails, upsert_mode = AnswersError,
              select_mode = AnswersError, now = ''2025-01-01T00:00:00.000Z''\<rparr>"

text \<open>Whether a cache entry is the serialisation of a progress record.\<close>

fun holds_record :: "stored option \<Rightarrow> bool" where
  "holds_record (Some (JsonProgress p)) = True"
| "holds_record other = False"

definition alice_progress :: WatchProgress where
  "alice_progress = \<lparr>filmId = ''f1'', currentClipIndex = 1, currentTime = 20,
     lastWatchedAt = ''2025-01-01T00:00:00.000Z'', userId = ''alice''\<rparr>"

definition anon_progress :: WatchProgress where
  "anon_progress = \<lparr>filmId = ''f1'', currentClipIndex = 0, currentTime = 10,
     lastWatchedAt = ''2025-01-02T00:00:00.000Z'', userId = []\<rparr>"

definition world_synced :: world where
  "world_synced =
     \<lparr>asyncStorage = [storage_key ''f1'' \<mapsto> JsonProgress alice_progress],
      watch_progress = [(''alice'', ''f1'') \<mapsto> cloud_row env_ok alice_progress],
      console = [], calls = []\<rparr>"

text \<open>The table holds a row of the user \<open>alice\<close> for the film \<open>f1\<close>; the cache is empty.\<close>

definition world_cloud_only :: world where
  "world_cloud_only =
     \<lparr>asyncStorage = Map.empty,
      watch_progress = [(''alice'', ''f1'') \<mapsto> cloud_row env_ok alice_progress],
      console = [], calls = []\<rparr>"

definition watch0 :: watch_state where
  "watch0 = \<lparr>watch_film = Some scenario_film, watch_user = None, watch_currentClipIndex = 0,
             watchProgress = None, alerts = []\<rparr>"

section \<open>The vertical feed (\<open>src/components/VerticalVideoPlayer.tsx\<close>)\<close>

text \<open>
  The status a player hands to \<open>onPlaybackStatusUpdate\<close>: not loaded, or loaded with a
  position and an optional duration in milliseconds and the two flags.
\<close>

datatype AVPlaybackStatus =
    NotLoaded
  | Loaded (positionMillis: int) (durationMillis: "int option") (status_isPlaying: bool)
      (didJustFinish: bool)

text \<open>
  The state of one \<open>VideoItem\<close>. Next to the component's own state, \<open>commanded_to_play\<close>
  records the player behind \<open>videoRef\<close>: true after \<open>playAsync\<close>, false after \<open>pauseAsync\<close>.
\<close>

record video_item =
  isPlaying :: bool
  showControls :: bool
  item_currentTime :: real
  item_duration :: real
  isLoaded :: bool
  commanded_to_play :: bool

datatype command = PlayAsync nat | PauseAsync nat

text \<open>The calls of the props \<open>onClipChange\<close> and \<open>onProgress\<close>, in order.\<close>

datatype callback = ClipChange int | Progress int real real

record feed =
  currentIndex :: int
  items :: "video_item list"
  commands :: "command list"
  callbacks :: "callback list"

definition map_item :: "nat \<Rightarrow> (video_item \<Rightarrow> video_item) \<Rightarrow> feed \<Rightarrow> feed" where
  "map_item i g f = f\<lparr>items := (items f)[i := g (items f ! i)]\<rparr>"

text \<open>The prop \<open>isVisible = {index === currentIndex}\<close> of \<open>renderVideoItem\<close>.\<close>

definition isVisible :: "nat \<Rightarrow> feed \<Rightarrow> bool" where
  "isVisible i f = (int i = currentIndex f)"

text \<open>All items of the list are taken as mounted: \<open>videoRef.current\<close> is set for each.\<close>

definition mounted :: "nat \<Rightarrow> feed \<Rightarrow> bool" where
  "mounted i f = (i < length (items f))"

definition pauseAsync :: "nat \<Rightarrow> feed \<Rightarrow> feed" where
  "pauseAsync i f =
     map_item i (\<lambda>it. it\<lparr>commanded_to_play := False\<rparr>) (f\<lparr>commands := commands f @ [PauseAsync i]\<rparr>)"

definition playAsync :: "nat \<Rightarrow> feed \<Rightarrow> feed" where
  "playAsync i f =
     map_item i (\<lambda>it. it\<lparr>commanded_to_play := True\<rparr>) (f\<lparr>commands := commands f @ [PlayAsync i]\<rparr>)"

definition setIsPlaying :: "nat \<Rightarrow> bool \<Rightarrow> feed \<Rightarrow> feed" where
  "setIsPlaying i b f = map_item i (\<lambda>it. it\<lparr>isPlaying := b\<rparr>) f"

definition setShowControls :: "nat \<Rightarrow> bool \<Rightarrow> feed \<Rightarrow> feed" where
  "setShowControls i b f = map_item i (\<lambda>it. it\<lparr>showControls := b\<rparr>) f"

text \<open>The effect of \<open>VideoItem\<close> on \<open>[isVisible]\<close>.\<close>

definition visibility_effect :: "nat \<Rightarrow> feed \<Rightarrow> feed" where
  "visibility_effect i f =
     (if \<not> isVisible i f \<and> mounted i f then setIsPlaying i False (pauseAsync i f) else f)"

definition togglePlayPause :: "nat \<Rightarrow> feed \<Rightarrow> feed" where
  "togglePlayPause i f =
     (if \<not> mounted i f \<or> \<not> isLoaded (items f ! i) then f
      else setShowControls i True
             (if isPlaying (items f ! i) then setIsPlaying i False (pauseAsync i f)
              else setIsPlaying i True (playAsync i f)))"

text \<open>\<open>handleProgress\<close> of \<open>VerticalVideoPlayer\<close>: every item's tick goes up under \<open>currentIndex\<close>.\<close>

definition feed_handleProgress :: "real \<Rightarrow> real \<Rightarrow> feed \<Rightarrow> feed" where
  "feed_handleProgress t dur f = f\<lparr>callbacks := callbacks f @ [Progress (currentIndex f) t dur]\<rparr>"

definition durationSeconds_of :: "int option \<Rightarrow> real" where
  "durationSeconds_of d =
     (case d of None \<Rightarrow> 0 | Some ms \<Rightarrow> if ms \<noteq> 0 then real_of_int ms / 1000 else 0)"

definition handlePlaybackStatusUpdate :: "nat \<Rightarrow> AVPlaybackStatus \<Rightarrow> feed \<Rightarrow> feed" where
  "handlePlaybackStatusUpdate i status f =
     (if \<not> mounted i f then f
      else case status of
        NotLoaded \<Rightarrow> map_item i (\<lambda>it. it\<lparr>isLoaded := False\<rparr>) f
      | Loaded pos dur playing finished \<Rightarrow>
          (let currentTimeSeconds = real_of_int pos / 1000;
               durationSeconds = durationSeconds_of dur;
               f1 = map_item i (\<lambda>it. it\<lparr>isLoaded := True,
                                           item_currentTime := currentTimeSeconds,
                                           item_duration := durationSeconds,
                                           isPlaying := playing\<rparr>) f;
               f2 = feed_handleProgress currentTimeSeconds durationSeconds f1;
               f3 = (if \<not> playing \<and> isVisible i f2 \<and> \<not> finished
                     then (if currentTimeSeconds = 0 then playAsync i f2 else f2)
                     else f2)
           in if finished then setShowControls i True (setIsPlaying i False f3) else f3))"

text \<open>
  After \<open>currentIndex\<close> has changed, the effect runs for the items whose \<open>isVisible\<close>
  changed: the one that was visible and the one that is visible now.
\<close>

definition effect_at :: "int \<Rightarrow> feed \<Rightarrow> feed" where
  "effect_at j f = (if 0 \<le> j then visibility_effect (nat j) f else f)"

definition rerender :: "int \<Rightarrow> feed \<Rightarrow> feed" where
  "rerender old f =
     (if old = currentIndex f then f else effect_at (currentIndex f) (effect_at old f))"

definition onViewableItemsChanged :: "nat list \<Rightarrow> feed \<Rightarrow> feed" where
  "onViewableItemsChanged viewableItems f =
     (case viewableItems of
        [] \<Rightarrow> f
      | v # vs \<Rightarrow>
          (let newIndex = int v in
           rerender (currentIndex f)
             (f\<lparr>currentIndex := newIndex, callbacks := callbacks f @ [ClipChange newIndex]\<rparr>)))"

definition new_item :: video_item where
  "new_item = \<lparr>isPlaying = False, showControls = False, item_currentTime = 0,
               item_duration = 0, isLoaded = False, commanded_to_play = False\<rparr>"

text \<open>Mounting a feed of \<open>n\<close> clips: every item starts paused, and each runs its effect once.\<close>

definition mount :: "nat \<Rightarrow> int \<Rightarrow> feed" where
  "mount n initialClipIndex =
     fold visibility_effect [0..<n]
       \<lparr>currentIndex = initialClipIndex, items = replicate n new_item,
        commands = [], callbacks = []\<rparr>"

datatype event =
    ViewableItemsChanged "nat list"
  | PlaybackStatusUpdate nat AVPlaybackStatus
  | PressPlayPause nat

fun feed_step :: "event \<Rightarrow> feed \<Rightarrow> feed" where
  "feed_step (ViewableItemsChanged vs) f = onViewableItemsChanged vs f"
| "feed_step (PlaybackStatusUpdate i st) f = handlePlaybackStatusUpdate i st f"
| "feed_step (PressPlayPause i) f = togglePlayPause i f"

fun run :: "feed \<Rightarrow> event list \<Rightarrow> feed" where
  "run f [] = f"
| "run f (ev # evs) = run (feed_step ev f) evs"

text \<open>
  What the feed relies on from outside. A player reports \<open>isPlaying\<close> only when its last
  command was a play; and the button a user presses is the one of the clip on screen.
\<close>

fun admissible :: "feed \<Rightarrow> event \<Rightarrow> bool" where
  "admissible f (ViewableItemsChanged vs) = True"
| "admissible f (PlaybackStatusUpdate i NotLoaded) = True"
| "admissible f (PlaybackStatusUpdate i (Loaded pos dur playing finished)) =
     (if playing then mounted i f \<and> commanded_to_play (items f ! i) else True)"
| "admissible f (PressPlayPause i) = isVisible i f"

fun admissible_run :: "feed \<Rightarrow> event list \<Rightarrow> bool" where
  "admissible_run f [] = True"
| "admissible_run f (ev # evs) = (admissible f ev \<and> admissible_run (feed_step ev f) evs)"

definition playing_clips :: "feed \<Rightarrow> nat list" where
  "playing_clips f = filter (\<lambda>i. isPlaying (items f ! i)) [0..<length (items f)]"

text \<open>Every clip but the one at \<open>currentIndex\<close> is paused, in the component and in its player.\<close>

definition paused_item :: "video_item \<Rightarrow> bool" where
  "paused_item it = (\<not> isPlaying it \<and> \<not> commanded_to_play it)"

definition others_paused :: "feed \<Rightarrow> bool" where
  "others_paused f =
     list_all (\<lambda>i. if isVisible i f then True else paused_item (items f ! i))
       [0..<length (items f)]"

text \<open>The watch screen as the parent of the feed: it receives the feed's callbacks.\<close>

fun deliver :: "env \<Rightarrow> callback \<Rightarrow> watch_state \<times> world \<Rightarrow> watch_state \<times> world" where
  "deliver e (ClipChange i) sw = handleClipChange e i sw"
| "deliver e (Progress i t dur) sw = handleProgress e i t dur sw"

fun deliver_all :: "env \<Rightarrow> callback list \<Rightarrow> watch_state \<times> world \<Rightarrow> watch_state \<times> world" where
  "deliver_all e [] sw = sw"
| "deliver_all e (cb # cbs) sw = deliver_all e cbs (deliver e cb sw)"

text \<open>
  A session on a feed of three clips: clip 0 loads, is started and plays; the viewer swipes
  to clip 1, which loads, is started and plays; then a status of clip 0 arrives that still
  says it plays (\<open>pauseAsync\<close> is not awaited, and a report may be on its way).
\<close>

definition stale_events :: "event list" where
  "stale_events =
     [PlaybackStatusUpdate 0 (Loaded 0 (Some 30000) False False),
      PlaybackStatusUpdate 0 (Loaded 500 (Some 30000) True False),
      ViewableItemsChanged [1],
      PlaybackStatusUpdate 1 (Loaded 0 (Some 20000) False False),
      PlaybackStatusUpdate 1 (Loaded 400 (Some 20000) True False),
      PlaybackStatusUpdate 0 (Loaded 600 (Some 30000) True False)]"

text \<open>
  Clip 0 is on screen and has played for ten seconds when the player of clip 1, behind it,
  reports that it has loaded.
\<close>

definition background_events :: "event list" where
  "background_events =
     [PlaybackStatusUpdate 0 (Loaded 0 (Some 30000) False False),
      PlaybackStatusUpdate 0 (Loaded 10000 (Some 30000) True False),
      PlaybackStatusUpdate 1 (Loaded 0 (Some 20000) False False)]"

text \<open>
  On the scenario film, the viewer swipes from clip 1 to the premium clip 2, whose player
  then reports that it has loaded, and later that it plays.
\<close>

definition paywall_events :: "event list" where
  "paywall_events =
     [ViewableItemsChanged [2],
      PlaybackStatusUpdate 2 (Loaded 0 (Some 30000) False False),
      PlaybackStatusUpdate 2 (Loaded 300 (Some 30000) True False)]"

section \<open>Access policy\<close>

text \<open>
  C5. \<open>canAccessClip\<close> is false for an index outside the clip list; true for a clip that is
  not premium; for a premium clip it is true for a premium viewer, and for a viewer without
  premium it is true exactly when the index is below \<open>freeClipLimit\<close>. On the scenario film
  a viewer without premium gets true, true, false, false, false.
\<close>

theorem canAccessClip_policy:
  "(\<not> (0 \<le> i \<and> i < int (length (clips film))) \<longrightarrow> canAccessClip film i prem = False)
   \<and> (0 \<le> i \<and> i < int (length (clips film)) \<longrightarrow>
        (\<not> truthy_flag (isPremium (clips film ! nat i)) \<longrightarrow> canAccessClip film i prem = True)
      \<and> (truthy_flag (isPremium (clips film ! nat i)) \<and> prem \<longrightarrow>
            canAccessClip film i prem = True)
      \<and> (truthy_flag (isPremium (clips film ! nat i)) \<and> \<not> prem \<longrightarrow>
            canAccessClip film i prem = (i < freeClipLimit film)))
   \<and> map (\<lambda>k. canAccessClip scenario_film k False) [0, 1, 2, 3, 4]
        = [True, True, False, False, False]"
proof -
  have scen: "map (\<lambda>k. canAccessClip scenario_film k False) [0, 1, 2, 3, 4]
        = [True, True, False, False, False]"
    by (simp add: canAccessClip_def array_get_def scenario_film_def scenario_clip_def
        truthy_flag_def)
  show ?thesis
    using scen by (simp add: canAccessClip_def array_get_def)
qed

theorem canAccessClip_policy_witness:
  "canAccessClip scenario_film 7 False = False
   \<and> canAccessClip scenario_film (-1) True = False
   \<and> canAccessClip scenario_film 1 False = True
   \<and> canAccessClip scenario_film 3 True = True
   \<and> canAccessClip scenario_film 3 False = False"
proof -
  have len: "int (length (clips scenario_film)) = 5"
    by (simp add: scenario_film_def)
  have c1: "\<not> truthy_flag (isPremium (clips scenario_film ! nat 1))"
    by (simp add: scenario_film_def scenario_clip_def truthy_flag_def)
  have c3: "truthy_flag (isPremium (clips scenario_film ! nat 3))"
    by (simp add: scenario_film_def scenario_clip_def truthy_flag_def)
  have lim: "freeClipLimit scenario_film = 2"
    by (simp add: scenario_film_def)
  show ?thesis
    using canAccessClip_policy [of 7 scenario_film False]
      canAccessClip_policy [of "-1" scenario_film True]
      canAccessClip_policy [of 1 scenario_film False]
      canAccessClip_policy [of 3 scenario_film True]
      canAccessClip_policy [of 3 scenario_film False]
      len c1 c3 lim
    by simp
qed

section \<open>Navigation\<close>

text \<open>
  C9, as the specification states it, fails for an empty film: with no clips the next index
  after 0 is \<open>min 1 (-1) = -1\<close>, a negative index.
\<close>

theorem getNextClipIndex_negative_counterexample:
  "getNextClipIndex 0 0 = -1 \<and> getNextClipIndex 0 0 < 0"
  by (simp add: getNextClipIndex_def)

text \<open>
  C9, amended. For safe integers \<open>current\<close> and \<open>total\<close>: \<open>getNextClipIndex current total =
  min (current + 1) (total - 1)\<close> and \<open>getPreviousClipIndex current = max (current - 1) 0\<close>.
  The next index never exceeds \<open>total - 1\<close>; it is non-negative exactly when the film has a
  clip (\<open>total \<ge> 1\<close>) and \<open>current \<ge> -1\<close>, so it is a valid index for every valid current
  index of a non-empty film; for an empty film and \<open>current \<ge> -2\<close> it is \<open>-1\<close>. The previous
  index is never negative. At the ends, \<open>getNextClipIndex (total - 1) total = total - 1\<close> and
  \<open>getPreviousClipIndex 0 = 0\<close>.
\<close>

theorem clip_index_clamping:
  "safe_integer c \<and> safe_integer n \<longrightarrow>
     getNextClipIndex c n = min (c + 1) (n - 1)
   \<and> getPreviousClipIndex c = max (c - 1) 0
   \<and> getNextClipIndex c n \<le> n - 1
   \<and> (0 \<le> getNextClipIndex c n) = (-1 \<le> c \<and> 1 \<le> n)
   \<and> (0 \<le> c \<and> c < n \<longrightarrow> 0 \<le> getNextClipIndex c n \<and> getNextClipIndex c n < n)
   \<and> (n = 0 \<and> -2 \<le> c \<longrightarrow> getNextClipIndex c n = -1)
   \<and> 0 \<le> getPreviousClipIndex c
   \<and> getPreviousClipIndex c \<le> max c 0
   \<and> getNextClipIndex (n - 1) n = n - 1
   \<and> getPreviousClipIndex 0 = 0"
  by (auto simp add: getNextClipIndex_def getPreviousClipIndex_def)

text \<open>C9, amended, at concrete inputs: a five-clip film and an empty one.\<close>

theorem clip_index_clamping_witness:
  "getNextClipIndex 3 5 = 4 \<and> getNextClipIndex 4 5 = 4 \<and> getPreviousClipIndex 3 = 2
   \<and> 0 \<le> getNextClipIndex 4 5 \<and> getNextClipIndex 4 5 < 5
   \<and> getNextClipIndex 0 0 = -1 \<and> getPreviousClipIndex 0 = 0"
proof -
  have s: "safe_integer 0 \<and> safe_integer 3 \<and> safe_integer 4 \<and> safe_integer 5"
    by (simp add: safe_integer_def)
  show ?thesis
    using clip_index_clamping [of 3 5] clip_index_clamping [of 4 5]
      clip_index_clamping [of 0 0] s
    by simp
qed

section \<open>Properties of the progress service\<close>

lemma saveLocalProgress_fst: "fst (saveLocalProgress e p w) = Resolved ()"
  by (simp add: saveLocalProgress_def AsyncStorage_setItem_def Let_def split: io_mode.splits)

lemma saveLocalProgress_calls:
  "calls (snd (saveLocalProgress e p w)) =
     calls w @ [SetItem (storage_key (filmId p)) (JsonProgress p)]"
  by (simp add: saveLocalProgress_def AsyncStorage_setItem_def Let_def console_error_def
      split: io_mode.splits)

lemma saveLocalProgress_storage:
  "asyncStorage (snd (saveLocalProgress e p w)) =
     (case setItem_mode e of
        Succeeds \<Rightarrow> (asyncStorage w)(storage_key (filmId p) \<mapsto> JsonProgress p)
      | Fails \<Rightarrow> asyncStorage w)"
  by (simp add: saveLocalProgress_def AsyncStorage_setItem_def Let_def console_error_def
      split: io_mode.splits)

lemma saveLocalProgress_console:
  "console (snd (saveLocalProgress e p w)) =
     (case setItem_mode e of
        Succeeds \<Rightarrow> console w
      | Fails \<Rightarrow> console w @ [''Error saving local progress:''])"
  by (simp add: saveLocalProgress_def AsyncStorage_setItem_def Let_def console_error_def
      split: io_mode.splits)

lemma saveLocalProgress_table:
  "watch_progress (snd (saveLocalProgress e p w)) = watch_progress w"
  by (simp add: saveLocalProgress_def AsyncStorage_setItem_def Let_def console_error_def
      split: io_mode.splits)

lemma syncProgressToCloud_fst: "fst (syncProgressToCloud e p w) = Resolved ()"
  by (simp add: syncProgressToCloud_def supabase_upsert_def Let_def split: remote_mode.splits)

lemma syncProgressToCloud_calls:
  "calls (snd (syncProgressToCloud e p w)) = calls w @ [Upsert (cloud_row e p)]"
  by (simp add: syncProgressToCloud_def supabase_upsert_def Let_def console_error_def
      split: remote_mode.splits)

lemma syncProgressToCloud_storage:
  "asyncStorage (snd (syncProgressToCloud e p w)) = asyncStorage w"
  by (simp add: syncProgressToCloud_def supabase_upsert_def Let_def console_error_def
      split: remote_mode.splits)

lemma syncProgressToCloud_console:
  "console (snd (syncProgressToCloud e p w)) =
     (case upsert_mode e of
        Answers \<Rightarrow> console w
      | AnswersError \<Rightarrow> console w @ [''Error syncing progress to cloud:'']
      | Throws \<Rightarrow> console w @ [''Error syncing progress to cloud:''])"
  by (simp add: syncProgressToCloud_def supabase_upsert_def Let_def console_error_def
      split: remote_mode.splits)

lemma syncProgressToCloud_table:
  "watch_progress (snd (syncProgressToCloud e p w)) =
     (case upsert_mode e of
        Answers \<Rightarrow> (watch_progress w)((userId p, filmId p) \<mapsto> cloud_row e p)
      | AnswersError \<Rightarrow> watch_progress w
      | Throws \<Rightarrow> watch_progress w)"
  by (simp add: syncProgressToCloud_def supabase_upsert_def Let_def console_error_def cloud_row_def
      split: remote_mode.splits)

lemma saveWatchProgress_unfold:
  "saveWatchProgress e p w =
     (if truthy_string (userId p) then syncProgressToCloud e p (snd (saveLocalProgress e p w))
      else (Resolved (), snd (saveLocalProgress e p w)))"
  using saveLocalProgress_fst [of e p w]
  by (cases "saveLocalProgress e p w") (simp add: saveWatchProgress_def)

lemma saveWatchProgress_console:
  "console (snd (saveWatchProgress e p w)) =
     console w
       @ (case setItem_mode e of Succeeds \<Rightarrow> [] | Fails \<Rightarrow> [''Error saving local progress:''])
       @ (if userId p = [] then []
          else case upsert_mode e of
                 Answers \<Rightarrow> []
               | AnswersError \<Rightarrow> [''Error syncing progress to cloud:'']
               | Throws \<Rightarrow> [''Error syncing progress to cloud:''])"
  by (simp add: saveWatchProgress_unfold truthy_string_def syncProgressToCloud_console
      saveLocalProgress_console split: io_mode.splits remote_mode.splits)

lemma saveProgress_loaded:
  "watch_film ws = Some f \<Longrightarrow>
   saveProgress e i t (ws, w) =
     (ws\<lparr>watchProgress := Some \<lparr>filmId = film_id f, currentClipIndex = i, currentTime = t,
                                  lastWatchedAt = now e,
                                  userId = user_id_or_empty (watch_user ws)\<rparr>\<rparr>,
      snd (saveWatchProgress e \<lparr>filmId = film_id f, currentClipIndex = i, currentTime = t,
                                lastWatchedAt = now e,
                                userId = user_id_or_empty (watch_user ws)\<rparr> w))"
proof -
  let ?p = "\<lparr>filmId = film_id f, currentClipIndex = i, currentTime = t,
             lastWatchedAt = now e, userId = user_id_or_empty (watch_user ws)\<rparr>"
  assume fm: "watch_film ws = Some f"
  have r: "fst (saveWatchProgress e ?p w) = Resolved ()"
    by (simp add: saveWatchProgress_unfold syncProgressToCloud_fst)
  show ?thesis
    using r fm by (cases "saveWatchProgress e ?p w") (simp add: saveProgress_def Let_def)
qed

text \<open>
  C10. \<open>saveWatchProgress\<close> resolves for every environment, record and world: it never
  rejects, whatever the cache and the remote store do, and its result is the same in every
  case. A failed cache write and a failed upsert each leave one line on the console and
  nothing else. The caller \<open>saveProgress\<close> ends in the same component state whether or not
  the writes went through.
\<close>

theorem saveWatchProgress_always_resolves:
  "fst (saveWatchProgress e p w) = Resolved ()
   \<and> fst (saveWatchProgress e p w) = fst (saveWatchProgress e' p w')
   \<and> console (snd (saveWatchProgress e p w)) =
       console w
       @ (case setItem_mode e of Succeeds \<Rightarrow> [] | Fails \<Rightarrow> [''Error saving local progress:''])
       @ (if userId p = [] then []
          else case upsert_mode e of
                 Answers \<Rightarrow> []
               | AnswersError \<Rightarrow> [''Error syncing progress to cloud:'']
               | Throws \<Rightarrow> [''Error syncing progress to cloud:''])
   \<and> (watch_film ws = Some f \<longrightarrow>
        fst (saveProgress (e\<lparr>setItem_mode := m1, upsert_mode := m2\<rparr>) i t (ws, w))
          = fst (saveProgress e i t (ws, w))
        \<and> watchProgress (fst (saveProgress e i t (ws, w))) =
            Some \<lparr>filmId = film_id f, currentClipIndex = i, currentTime = t,
                  lastWatchedAt = now e, userId = user_id_or_empty (watch_user ws)\<rparr>)"
proof -
  have r: "fst (saveWatchProgress e p w) = Resolved ()" for e p w
    by (simp add: saveWatchProgress_unfold syncProgressToCloud_fst)
  have c: "watch_film ws = Some f \<longrightarrow>
        fst (saveProgress (e\<lparr>setItem_mode := m1, upsert_mode := m2\<rparr>) i t (ws, w))
          = fst (saveProgress e i t (ws, w))
        \<and> watchProgress (fst (saveProgress e i t (ws, w))) =
            Some \<lparr>filmId = film_id f, currentClipIndex = i, currentTime = t,
                  lastWatchedAt = now e, userId = user_id_or_empty (watch_user ws)\<rparr>"
    by (simp add: saveProgress_loaded)
  show ?thesis
    using r [of e p w] r [of e' p w'] saveWatchProgress_console [of e p w] c
    by simp
qed

text \<open>
  C7. The first call of \<open>saveWatchProgress\<close> is the cache write of the record under the
  film's key; an upsert of the row with the record's \<open>userId\<close> and \<open>filmId\<close> follows exactly
  when \<open>userId\<close> is non-empty, and it is issued once. What the cache holds afterwards is what
  the local write left, whatever the remote store did; when the cache accepts the write, it
  holds the record. A remote failure is answered by a console line: the call resolves and
  the table is unchanged.
\<close>

theorem saveWatchProgress_write_path:
  "calls (snd (saveWatchProgress e p w)) =
      calls w @ [SetItem (storage_key (filmId p)) (JsonProgress p)]
        @ (if userId p \<noteq> [] then [Upsert (cloud_row e p)] else [])
   \<and> user_id (cloud_row e p) = userId p \<and> film_id_col (cloud_row e p) = filmId p
   \<and> asyncStorage (snd (saveLocalProgress e p w)) = asyncStorage (snd (saveWatchProgress e p w))
   \<and> (setItem_mode e = Succeeds \<longrightarrow>
        asyncStorage (snd (saveWatchProgress e p w)) (storage_key (filmId p)) = Some (JsonProgress p))
   \<and> (userId p \<noteq> [] \<and> upsert_mode e \<noteq> Answers \<longrightarrow>
        fst (saveWatchProgress e p w) = Resolved ()
        \<and> console (snd (saveWatchProgress e p w)) =
            console (snd (saveLocalProgress e p w)) @ [''Error syncing progress to cloud:'']
        \<and> watch_progress (snd (saveWatchProgress e p w)) = watch_progress w)
   \<and> (userId p \<noteq> [] \<and> upsert_mode e = Answers \<longrightarrow>
        watch_progress (snd (saveWatchProgress e p w)) (userId p, filmId p) = Some (cloud_row e p))
   \<and> (userId p = [] \<longrightarrow>
        watch_progress (snd (saveWatchProgress e p w)) = watch_progress w)"
  by (cases "upsert_mode e")
     (simp_all add: saveWatchProgress_unfold truthy_string_def syncProgressToCloud_fst
       syncProgressToCloud_calls syncProgressToCloud_storage syncProgressToCloud_console
       syncProgressToCloud_table saveLocalProgress_calls saveLocalProgress_storage
       saveLocalProgress_table cloud_row_def)


text \<open>
  C7 at concrete inputs: a signed-in user while the network is down, the same user with the
  remote store answering, and an anonymous viewer.
\<close>

theorem saveWatchProgress_write_path_witness:
  "calls (snd (saveWatchProgress env_offline alice_progress world0)) =
      [SetItem ''tinky_watch_progress_f1'' (JsonProgress alice_progress),
       Upsert (cloud_row env_offline alice_progress)]
   \<and> asyncStorage (snd (saveWatchProgress env_offline alice_progress world0))
        ''tinky_watch_progress_f1'' = Some (JsonProgress alice_progress)
   \<and> console (snd (saveWatchProgress env_offline alice_progress world0)) =
        [''Error syncing progress to cloud:'']
   \<and> watch_progress (snd (saveWatchProgress env_ok alice_progress world0)) (''alice'', ''f1'')
        = Some (cloud_row env_ok alice_progress)
   \<and> calls (snd (saveWatchProgress env_ok anon_progress world0)) =
      [SetItem ''tinky_watch_progress_f1'' (JsonProgress anon_progress)]"
proof -
  have a: "userId alice_progress \<noteq> [] \<and> filmId alice_progress = ''f1''
           \<and> userId alice_progress = ''alice''"
    by (simp add: alice_progress_def)
  have b: "userId anon_progress = [] \<and> filmId anon_progress = ''f1''"
    by (simp add: anon_progress_def)
  have m: "setItem_mode env_offline = Succeeds \<and> upsert_mode env_offline \<noteq> Answers
           \<and> upsert_mode env_ok = Answers"
    by (simp add: env_offline_def env_ok_def)
  have k: "storage_key ''f1'' = ''tinky_watch_progress_f1''"
    by (simp add: storage_key_def STORAGE_KEY_def)
  have c: "console (snd (saveLocalProgress env_offline alice_progress world0)) = []
           \<and> calls world0 = []"
    by (simp add: saveLocalProgress_console env_offline_def world0_def)
  show ?thesis
    using saveWatchProgress_write_path [of env_offline alice_progress world0]
      saveWatchProgress_write_path [of env_ok alice_progress world0]
      saveWatchProgress_write_path [of env_ok anon_progress world0]
      a b m k c
    by simp
qed


lemma storage_key_inject: "(storage_key f1 = storage_key f2) = (f1 = f2)"
  by (simp add: storage_key_def)

lemma getLocalProgress_calls:
  "calls (snd (getLocalProgress e fid w)) = calls w @ [GetItem (storage_key fid)]"
  by (simp add: getLocalProgress_def AsyncStorage_getItem_def Let_def console_error_def
      split: io_mode.splits option.splits stored.splits)

lemma getLocalProgress_fst:
  "fst (getLocalProgress e fid w) =
     Resolved (case getItem_mode e of
                 Fails \<Rightarrow> None
               | Succeeds \<Rightarrow>
                   (case asyncStorage w (storage_key fid) of
                      Some (JsonProgress p) \<Rightarrow> Some p
                    | other \<Rightarrow> None))"
  by (simp add: getLocalProgress_def AsyncStorage_getItem_def Let_def console_error_def
      split: io_mode.splits option.splits stored.splits)

lemma getCloudProgress_fst:
  "fst (getCloudProgress e u fid w) =
     Resolved (case select_mode e of
                 Answers \<Rightarrow> map_option progress_of_row (watch_progress w (u, fid))
               | AnswersError \<Rightarrow> None
               | Throws \<Rightarrow> None)"
  by (simp add: getCloudProgress_def supabase_select_single_def Let_def console_error_def
      split: remote_mode.splits option.splits)

lemma getCloudProgress_calls:
  "calls (snd (getCloudProgress e u fid w)) = calls w @ [SelectSingle u fid]"
  by (simp add: getCloudProgress_def supabase_select_single_def Let_def console_error_def
      split: remote_mode.splits option.splits)

lemma getCloudProgress_storage:
  "asyncStorage (snd (getCloudProgress e u fid w)) = asyncStorage w"
  by (simp add: getCloudProgress_def supabase_select_single_def Let_def console_error_def
      split: remote_mode.splits option.splits)

lemma getLocalProgress_fst_cong:
  "asyncStorage w1 = asyncStorage w \<Longrightarrow>
   fst (getLocalProgress e fid w1) = fst (getLocalProgress e fid w)"
  by (simp add: getLocalProgress_fst split: io_mode.splits)

lemma getWatchProgress_cloud_hit:
  "truthy_string u \<Longrightarrow> fst (getCloudProgress e u fid w) = Resolved (Some r) \<Longrightarrow>
   getWatchProgress e (Some u) fid w = (Resolved (Some r), snd (getCloudProgress e u fid w))"
  by (cases "getCloudProgress e u fid w") (simp add: getWatchProgress_def)

lemma getWatchProgress_cloud_miss:
  "truthy_string u \<Longrightarrow> fst (getCloudProgress e u fid w) = Resolved None \<Longrightarrow>
   getWatchProgress e (Some u) fid w = getLocalProgress e fid (snd (getCloudProgress e u fid w))"
  by (cases "getCloudProgress e u fid w") (simp add: getWatchProgress_def)

lemma getWatchProgress_anonymous:
  "\<not> truthy_id uid \<Longrightarrow> getWatchProgress e uid fid w = getLocalProgress e fid w"
  by (simp add: getWatchProgress_def truthy_id_def split: option.splits)


text \<open>
  C8, as the specification states it, fails in its last clause: the result can be null
  while a source has a record. The table holds a row for \<open>alice\<close> and \<open>f1\<close>, the request
  throws, the cache is empty, and the result is null.
\<close>

theorem remote_record_unreachable_counterexample:
  "watch_progress world_cloud_only (''alice'', ''f1'') = Some (cloud_row env_ok alice_progress)
   \<and> fst (getWatchProgress env_offline (Some ''alice'') ''f1'' world_cloud_only)
       = Resolved None"
proof -
  have t: "truthy_string ''alice''"
    by (simp add: truthy_string_def)
  have md: "select_mode env_offline = Throws \<and> getItem_mode env_offline = Succeeds"
    by (simp add: env_offline_def)
  have miss: "fst (getCloudProgress env_offline ''alice'' ''f1'' world_cloud_only)
                = Resolved None"
    by (simp add: getCloudProgress_fst md)
  have loc: "fst (getLocalProgress env_offline ''f1''
                   (snd (getCloudProgress env_offline ''alice'' ''f1'' world_cloud_only)))
               = Resolved None"
    by (simp add: getLocalProgress_fst getCloudProgress_storage md world_cloud_only_def)
  have row: "watch_progress world_cloud_only (''alice'', ''f1'')
               = Some (cloud_row env_ok alice_progress)"
    by (simp add: world_cloud_only_def)
  show ?thesis
    using getWatchProgress_cloud_miss [OF t miss] loc row by simp
qed

text \<open>
  C8, amended. With a non-empty \<open>userId\<close>, \<open>getWatchProgress\<close> first asks the remote store; a record
  found there is the result, and on failure or absence the result is that of the local
  read. With an empty or null \<open>userId\<close> only the cache is read. The result is null exactly
  when no source that was asked yields a record; a remote fetch yields none exactly when the
  request fails or the table has no row for the pair, and a local read yields none exactly
  when the read fails or the cache has no record under the film's key. The call never
  rejects.
\<close>

theorem getWatchProgress_read_path:
  "(truthy_string u \<longrightarrow>
      (\<forall>r. fst (getCloudProgress e u fid w) = Resolved (Some r) \<longrightarrow>
           getWatchProgress e (Some u) fid w
             = (Resolved (Some r), snd (getCloudProgress e u fid w)))
    \<and> (fst (getCloudProgress e u fid w) = Resolved None \<longrightarrow>
           getWatchProgress e (Some u) fid w
             = getLocalProgress e fid (snd (getCloudProgress e u fid w)))
    \<and> take (Suc (length (calls w))) (calls (snd (getWatchProgress e (Some u) fid w)))
         = calls w @ [SelectSingle u fid]
    \<and> (fst (getWatchProgress e (Some u) fid w) = Resolved None)
         = (fst (getCloudProgress e u fid w) = Resolved None
            \<and> fst (getLocalProgress e fid w) = Resolved None))
   \<and> (\<not> truthy_id uid \<longrightarrow>
        getWatchProgress e uid fid w = getLocalProgress e fid w
      \<and> calls (snd (getWatchProgress e uid fid w)) = calls w @ [GetItem (storage_key fid)])
   \<and> (fst (getCloudProgress e u fid w) = Resolved None)
        = (select_mode e \<noteq> Answers \<or> watch_progress w (u, fid) = None)
   \<and> (fst (getLocalProgress e fid w) = Resolved None)
        = (getItem_mode e \<noteq> Succeeds \<or> \<not> holds_record (asyncStorage w (storage_key fid)))
   \<and> (\<exists>r. fst (getWatchProgress e uid fid w) = Resolved r)"
proof -
  have local_none: "(fst (getLocalProgress e fid w) = Resolved None)
        = (getItem_mode e \<noteq> Succeeds \<or> \<not> holds_record (asyncStorage w (storage_key fid)))"
    by (cases "getItem_mode e"; cases "asyncStorage w (storage_key fid)")
       (auto simp add: getLocalProgress_fst split: stored.splits)
  have cloud_none: "(fst (getCloudProgress e u fid w) = Resolved None)
        = (select_mode e \<noteq> Answers \<or> watch_progress w (u, fid) = None)"
    by (cases "select_mode e") (simp_all add: getCloudProgress_fst)
  have anon: "\<not> truthy_id uid \<longrightarrow>
        getWatchProgress e uid fid w = getLocalProgress e fid w
      \<and> calls (snd (getWatchProgress e uid fid w)) = calls w @ [GetItem (storage_key fid)]"
    by (simp add: getWatchProgress_anonymous getLocalProgress_calls)
  have total: "\<exists>r. fst (getWatchProgress e uid fid w) = Resolved r"
  proof (cases "truthy_id uid")
    case False
    then show ?thesis by (simp add: getWatchProgress_anonymous getLocalProgress_fst)
  next
    case True
    then obtain v where v: "uid = Some v" "truthy_string v"
      by (auto simp add: truthy_id_def split: option.splits)
    obtain c where c: "fst (getCloudProgress e v fid w) = Resolved c"
      by (simp add: getCloudProgress_fst)
    show ?thesis
    proof (cases c)
      case None
      with c v show ?thesis
        by (simp add: getWatchProgress_cloud_miss getLocalProgress_fst)
    next
      case (Some r)
      with c v show ?thesis by (simp add: getWatchProgress_cloud_hit)
    qed
  qed
  have signed_in: "truthy_string u \<longrightarrow>
      (\<forall>r. fst (getCloudProgress e u fid w) = Resolved (Some r) \<longrightarrow>
           getWatchProgress e (Some u) fid w
             = (Resolved (Some r), snd (getCloudProgress e u fid w)))
    \<and> (fst (getCloudProgress e u fid w) = Resolved None \<longrightarrow>
           getWatchProgress e (Some u) fid w
             = getLocalProgress e fid (snd (getCloudProgress e u fid w)))
    \<and> take (Suc (length (calls w))) (calls (snd (getWatchProgress e (Some u) fid w)))
         = calls w @ [SelectSingle u fid]
    \<and> (fst (getWatchProgress e (Some u) fid w) = Resolved None)
         = (fst (getCloudProgress e u fid w) = Resolved None
            \<and> fst (getLocalProgress e fid w) = Resolved None)"
  proof
    assume t: "truthy_string u"
    obtain c where c: "fst (getCloudProgress e u fid w) = Resolved c"
      by (simp add: getCloudProgress_fst)
    show "(\<forall>r. fst (getCloudProgress e u fid w) = Resolved (Some r) \<longrightarrow>
           getWatchProgress e (Some u) fid w
             = (Resolved (Some r), snd (getCloudProgress e u fid w)))
    \<and> (fst (getCloudProgress e u fid w) = Resolved None \<longrightarrow>
           getWatchProgress e (Some u) fid w
             = getLocalProgress e fid (snd (getCloudProgress e u fid w)))
    \<and> take (Suc (length (calls w))) (calls (snd (getWatchProgress e (Some u) fid w)))
         = calls w @ [SelectSingle u fid]
    \<and> (fst (getWatchProgress e (Some u) fid w) = Resolved None)
         = (fst (getCloudProgress e u fid w) = Resolved None
            \<and> fst (getLocalProgress e fid w) = Resolved None)"
    proof (cases c)
      case None
      with c t show ?thesis
        by (simp add: getWatchProgress_cloud_miss getLocalProgress_calls getCloudProgress_calls
            getLocalProgress_fst_cong [OF getCloudProgress_storage])
    next
      case (Some r)
      with c t show ?thesis
        by (simp add: getWatchProgress_cloud_hit getCloudProgress_calls)
    qed
  qed
  show ?thesis
    using signed_in anon cloud_none local_none total by blast
qed


text \<open>
  C8, amended, at concrete inputs: a remote hit, the fall back to the cache when the network is down,
  an anonymous read, and a read that finds nothing.
\<close>

theorem getWatchProgress_read_path_witness:
  "fst (getWatchProgress env_ok (Some ''alice'') ''f1'' world_synced)
     = Resolved (Some alice_progress)
   \<and> fst (getWatchProgress env_offline (Some ''alice'') ''f1'' world_synced)
     = Resolved (Some alice_progress)
   \<and> calls (snd (getWatchProgress env_ok None ''f1'' world_synced))
     = [GetItem ''tinky_watch_progress_f1'']
   \<and> fst (getWatchProgress env_ok (Some ''bob'') ''f2'' world_synced) = Resolved None"
proof -
  have k: "storage_key ''f1'' = ''tinky_watch_progress_f1''"
    by (simp add: storage_key_def STORAGE_KEY_def)
  have rt: "progress_of_row (cloud_row env_ok alice_progress) = alice_progress"
    by (simp add: progress_of_row_def cloud_row_def alice_progress_def)
  have md: "select_mode env_ok = Answers \<and> getItem_mode env_ok = Succeeds"
    by (simp add: env_ok_def)
  have hit: "fst (getCloudProgress env_ok ''alice'' ''f1'' world_synced)
               = Resolved (Some alice_progress)"
    by (simp add: getCloudProgress_fst md world_synced_def rt)
  have miss: "fst (getCloudProgress env_offline ''alice'' ''f1'' world_synced) = Resolved None"
    by (simp add: getCloudProgress_fst env_offline_def)
  have loc: "fst (getLocalProgress env_offline ''f1''
                   (snd (getCloudProgress env_offline ''alice'' ''f1'' world_synced)))
               = Resolved (Some alice_progress)"
    by (simp add: getLocalProgress_fst getCloudProgress_storage env_offline_def world_synced_def)
  have none: "fst (getCloudProgress env_ok ''bob'' ''f2'' world_synced) = Resolved None
              \<and> fst (getLocalProgress env_ok ''f2'' world_synced) = Resolved None"
    by (simp add: getCloudProgress_fst getLocalProgress_fst md world_synced_def
        storage_key_def)
  have t: "truthy_string ''alice'' \<and> truthy_string ''bob'' \<and> \<not> truthy_id None
           \<and> calls world_synced = []"
    by (simp add: truthy_string_def truthy_id_def world_synced_def)
  have A: "fst (getWatchProgress env_ok (Some ''alice'') ''f1'' world_synced)
             = Resolved (Some alice_progress)"
    using getWatchProgress_read_path
            [where u = "''alice''" and e = env_ok and fid = "''f1''" and w = world_synced
               and uid = None] hit t
    by auto
  have B: "fst (getWatchProgress env_offline (Some ''alice'') ''f1'' world_synced)
             = Resolved (Some alice_progress)"
    using getWatchProgress_read_path
            [where u = "''alice''" and e = env_offline and fid = "''f1''" and w = world_synced
               and uid = None] miss loc t
    by auto
  have C: "calls (snd (getWatchProgress env_ok None ''f1'' world_synced))
             = [GetItem ''tinky_watch_progress_f1'']"
    using getWatchProgress_read_path
            [where u = "''bob''" and e = env_ok and fid = "''f1''" and w = world_synced
               and uid = None] k t
    by auto
  have D: "fst (getWatchProgress env_ok (Some ''bob'') ''f2'' world_synced) = Resolved None"
    using getWatchProgress_read_path
            [where u = "''bob''" and e = env_ok and fid = "''f2''" and w = world_synced
               and uid = None] none t
    by auto
  show ?thesis
    using A B C D by simp
qed

text \<open>
  C10 at a concrete input: both stores fail, and the call still resolves.
\<close>

theorem saveWatchProgress_always_resolves_witness:
  "fst (saveWatchProgress env_broken alice_progress world0) = Resolved ()
   \<and> console (snd (saveWatchProgress env_broken alice_progress world0)) =
       [''Error saving local progress:'', ''Error syncing progress to cloud:'']
   \<and> watchProgress (fst (saveProgress env_broken 2 10 (watch0, world0))) =
       Some \<lparr>filmId = ''f1'', currentClipIndex = 2, currentTime = 10,
             lastWatchedAt = ''2025-01-01T00:00:00.000Z'', userId = []\<rparr>"
proof -
  have a: "userId alice_progress \<noteq> []"
    by (simp add: alice_progress_def)
  have m: "setItem_mode env_broken = Fails \<and> upsert_mode env_broken = AnswersError
           \<and> now env_broken = ''2025-01-01T00:00:00.000Z''"
    by (simp add: env_broken_def)
  have f: "watch_film watch0 = Some scenario_film \<and> film_id scenario_film = ''f1''
           \<and> user_id_or_empty (watch_user watch0) = [] \<and> console world0 = []"
    by (simp add: watch0_def scenario_film_def user_id_or_empty_def world0_def)
  show ?thesis
    using saveWatchProgress_always_resolves
            [where e = env_broken and p = alice_progress and w = world0 and ws = watch0
               and f = scenario_film and i = 2 and t = 10]
          a m f
    by simp
qed

text \<open>
  C6, as the specification states it, fails: the cache key does not depend on the user.
  The records of the user \<open>alice\<close> and of the anonymous viewer for the film \<open>f1\<close> are written
  under the same key, and after both writes the cache holds the second one only.
\<close>

theorem local_key_shared_counterexample:
  "userId alice_progress \<noteq> userId anon_progress
   \<and> calls (snd (saveLocalProgress env_ok alice_progress world0))
       = [SetItem ''tinky_watch_progress_f1'' (JsonProgress alice_progress)]
   \<and> calls (snd (saveLocalProgress env_ok anon_progress world0))
       = [SetItem ''tinky_watch_progress_f1'' (JsonProgress anon_progress)]
   \<and> fst (getLocalProgress env_ok ''f1''
            (snd (saveLocalProgress env_ok anon_progress
                   (snd (saveLocalProgress env_ok alice_progress world0)))))
       = Resolved (Some anon_progress)"
  by (simp add: saveLocalProgress_calls getLocalProgress_fst saveLocalProgress_storage
      storage_key_def STORAGE_KEY_def alice_progress_def anon_progress_def env_ok_def world0_def)

text \<open>
  C6, amended. The cache key is derived from the film id alone: it is
  \<open>tinky_watch_progress_\<close> followed by the film id, for the write and for the read. Two keys
  are equal exactly when the film ids are, so records of different films never share a key,
  and records of the same film share one whatever their user ids: the later write replaces
  the earlier.
\<close>

theorem local_key_by_film:
  "storage_key fid = ''tinky_watch_progress_'' @ fid
   \<and> (storage_key f1 = storage_key f2) = (f1 = f2)
   \<and> calls (snd (saveLocalProgress e p w))
       = calls w @ [SetItem (storage_key (filmId p)) (JsonProgress p)]
   \<and> calls (snd (getLocalProgress e fid w)) = calls w @ [GetItem (storage_key fid)]
   \<and> (setItem_mode e = Succeeds \<and> getItem_mode e = Succeeds \<and> filmId q = filmId p \<longrightarrow>
        fst (getLocalProgress e (filmId p)
              (snd (saveLocalProgress e q (snd (saveLocalProgress e p w)))))
          = Resolved (Some q))
   \<and> (setItem_mode e = Succeeds \<and> getItem_mode e = Succeeds \<and> filmId q \<noteq> filmId p \<longrightarrow>
        fst (getLocalProgress e (filmId p)
              (snd (saveLocalProgress e q (snd (saveLocalProgress e p w)))))
          = Resolved (Some p))"
  by (simp add: saveLocalProgress_calls getLocalProgress_calls getLocalProgress_fst
      saveLocalProgress_storage storage_key_def STORAGE_KEY_def)

text \<open>
  C6, amended, at concrete inputs: the same film overwritten, another film kept apart.
\<close>

theorem local_key_by_film_witness:
  "storage_key ''f1'' = ''tinky_watch_progress_f1''
   \<and> fst (getLocalProgress env_ok ''f1''
            (snd (saveLocalProgress env_ok anon_progress
                   (snd (saveLocalProgress env_ok alice_progress world0)))))
       = Resolved (Some anon_progress)
   \<and> fst (getLocalProgress env_ok ''f1''
            (snd (saveLocalProgress env_ok (anon_progress\<lparr>filmId := ''f2''\<rparr>)
                   (snd (saveLocalProgress env_ok alice_progress world0)))))
       = Resolved (Some alice_progress)"
proof -
  have m: "setItem_mode env_ok = Succeeds \<and> getItem_mode env_ok = Succeeds"
    by (simp add: env_ok_def)
  have f: "filmId alice_progress = ''f1'' \<and> filmId anon_progress = ''f1''"
    by (simp add: alice_progress_def anon_progress_def)
  show ?thesis
    using local_key_by_film [where fid = "''f1''" and e = env_ok and p = alice_progress
                               and q = anon_progress and w = world0]
          local_key_by_film [where fid = "''f1''" and e = env_ok and p = alice_progress
                               and q = "anon_progress\<lparr>filmId := ''f2''\<rparr>" and w = world0]
          m f
    by simp
qed

section \<open>Properties of the progress reporter\<close>

lemma written_positions_append:
  "written_positions (w\<lparr>calls := calls w @ cs\<rparr>) =
     written_positions w @ concat (map written_position cs)"
  by (simp add: written_positions_def)

lemma saveWatchProgress_calls:
  "calls (snd (saveWatchProgress e p w)) =
      calls w @ [SetItem (storage_key (filmId p)) (JsonProgress p)]
        @ (if userId p \<noteq> [] then [Upsert (cloud_row e p)] else [])"
  by (simp add: saveWatchProgress_unfold truthy_string_def syncProgressToCloud_calls
      saveLocalProgress_calls)

lemma saveWatchProgress_written:
  "written_positions (snd (saveWatchProgress e p w)) = written_positions w @ [currentTime p]"
  by (simp add: written_positions_def saveWatchProgress_calls)

lemma saveProgress_written:
  "watch_film ws = Some f \<Longrightarrow>
   written_positions (snd (saveProgress e i t (ws, w))) = written_positions w @ [t]"
  by (simp add: saveProgress_loaded saveWatchProgress_written)

lemma saveProgress_film:
  "watch_film (fst (saveProgress e i t (ws, w))) = watch_film ws"
  by (cases "watch_film ws") (simp_all add: saveProgress_loaded, simp add: saveProgress_def)

lemma handleProgress_written:
  "watch_film ws = Some f \<Longrightarrow>
   written_positions (snd (handleProgress e i t d (ws, w))) =
     written_positions w @ (if on_save_second t then [t] else [])"
  by (simp add: handleProgress_def saveProgress_written)

lemma handleProgress_film:
  "watch_film (fst (handleProgress e i t d (ws, w))) = watch_film ws"
  by (simp add: handleProgress_def saveProgress_film)

lemma report_ticks_written:
  "watch_film ws = Some f \<Longrightarrow>
   written_positions (snd (report_ticks e i d ts (ws, w))) =
     written_positions w @ filter on_save_second ts"
proof (induction ts arbitrary: ws w)
  case Nil
  then show ?case by simp
next
  case (Cons t ts)
  obtain ws1 w1 where step: "handleProgress e i t d (ws, w) = (ws1, w1)"
    by (cases "handleProgress e i t d (ws, w)")
  have film1: "watch_film ws1 = Some f"
    using handleProgress_film [of e i t d ws w] step Cons.prems by simp
  have wr1: "written_positions w1 = written_positions w @ (if on_save_second t then [t] else [])"
    using handleProgress_written [OF Cons.prems, of e i t d w] step by simp
  show ?case
    using Cons.IH [OF film1, of w1] step wr1 by simp
qed

lemma handleClipChange_written:
  "watch_film ws = Some f \<Longrightarrow> canAccessClip f j False \<Longrightarrow>
   written_positions (snd (handleClipChange e j (ws, w))) = written_positions w @ [0]"
  by (simp add: handleClipChange_def saveProgress_written)

lemma on_save_second_third: "on_save_second (real k / 3) = ((k div 3) mod 10 = 0)"
proof -
  have "\<lfloor>real k / 3\<rfloor> = int (k div 3)"
    using floor_divide_of_nat_eq [of k 3, where ?'a = real] by simp
  then show ?thesis
    by (simp add: on_save_second_def) presburger
qed

lemma save_seconds_3hz:
  "filter on_save_second ticks_3hz = [0, 1/3, 2/3, 10, 31/3, 32/3, 20, 61/3, 62/3, 30]"
proof -
  have "filter on_save_second ticks_3hz
          = map (\<lambda>k. real k / 3) (filter (\<lambda>k. (k div 3) mod 10 = 0) [0..<91])"
    by (simp add: ticks_3hz_def filter_map comp_def on_save_second_third)
  moreover have "filter (\<lambda>k::nat. (k div 3) mod 10 = 0) [0..<91]
          = [0, 1, 2, 30, 31, 32, 60, 61, 62, 90]"
    by code_simp
  ultimately show ?thesis by simp
qed


text \<open>
  C1 fails on the code. \<open>handleProgress\<close>, under its comment "Save progress every 10
  seconds", tests only the floor of the position and keeps no record of the seconds already
  written. Two ticks of the same integer second 10 are both written, and the stream of three
  ticks per second over thirty seconds triggers ten throttled writes, not three.
\<close>

theorem throttle_writes_second_twice:
  "written_positions (snd (report_ticks env_ok 0 30 [10, 52 / 5] (watch0, world0)))
     = [10, 52 / 5]
   \<and> \<lfloor>10 :: real\<rfloor> = 10 \<and> \<lfloor>52 / 5 :: real\<rfloor> = 10
   \<and> written_positions (snd (report_ticks env_ok 0 30 ticks_3hz (watch0, world0)))
     = [0, 1 / 3, 2 / 3, 10, 31 / 3, 32 / 3, 20, 61 / 3, 62 / 3, 30]
   \<and> length (written_positions (snd (report_ticks env_ok 0 30 ticks_3hz (watch0, world0))))
     = 10"
proof -
  have f: "watch_film watch0 = Some scenario_film"
    by (simp add: watch0_def)
  have w: "written_positions world0 = []"
    by (simp add: written_positions_def world0_def)
  have two: "filter on_save_second [10, 52 / 5] = [10, 52 / 5]"
    by (simp add: on_save_second_def)
  show ?thesis
    by (simp add: report_ticks_written [OF f] w two save_seconds_3hz
        del: report_ticks.simps filter.simps)
qed

section \<open>Properties of the feed\<close>

lemma saveProgress_user:
  "watch_user (fst (saveProgress e i t (ws, w))) = watch_user ws"
  by (cases "watch_film ws") (simp_all add: saveProgress_loaded, simp add: saveProgress_def)

lemma handleProgress_user:
  "watch_user (fst (handleProgress e i t d (ws, w))) = watch_user ws"
  by (simp add: handleProgress_def saveProgress_user)

lemma nth_update_if:
  "j < length xs \<Longrightarrow> (xs[i := x]) ! j = (if i = j then x else xs ! j)"
  by (cases "i = j") simp_all

lemma others_paused_iff:
  "others_paused f =
     (\<forall>i < length (items f). int i \<noteq> currentIndex f \<longrightarrow>
        \<not> isPlaying (items f ! i) \<and> \<not> commanded_to_play (items f ! i))"
  by (auto simp add: others_paused_def paused_item_def isVisible_def list_all_iff)

lemmas feed_ops =
  map_item_def pauseAsync_def playAsync_def setIsPlaying_def setShowControls_def
  isVisible_def mounted_def feed_handleProgress_def

lemma others_paused_pauseAsync:
  "others_paused f \<Longrightarrow> others_paused (pauseAsync i f)"
  by (auto simp add: others_paused_iff feed_ops nth_update_if)

lemma others_paused_visibility_effect:
  "others_paused f \<Longrightarrow> others_paused (visibility_effect i f)"
  by (auto simp add: others_paused_iff visibility_effect_def feed_ops nth_update_if)

lemma others_paused_togglePlayPause:
  "others_paused f \<Longrightarrow> isVisible i f \<Longrightarrow> others_paused (togglePlayPause i f)"
  by (auto simp add: others_paused_iff togglePlayPause_def feed_ops nth_update_if)

lemma others_paused_status:
  "others_paused f \<Longrightarrow> admissible f (PlaybackStatusUpdate i st) \<Longrightarrow>
   others_paused (handlePlaybackStatusUpdate i st f)"
  by (cases st)
     (auto simp add: others_paused_iff handlePlaybackStatusUpdate_def feed_ops Let_def
        nth_update_if split: if_splits)

lemma others_paused_viewable:
  "others_paused f \<Longrightarrow> others_paused (onViewableItemsChanged vs f)"
  by (cases vs)
     (auto simp add: others_paused_iff onViewableItemsChanged_def rerender_def effect_at_def
        visibility_effect_def feed_ops Let_def nth_update_if split: if_splits)


lemma others_paused_fold_effect:
  "others_paused f \<Longrightarrow> others_paused (fold visibility_effect xs f)"
  by (induction xs arbitrary: f) (simp_all add: others_paused_visibility_effect)

lemma others_paused_mount: "others_paused (mount n k)"
proof -
  have "others_paused \<lparr>currentIndex = k, items = replicate n new_item,
                        commands = [], callbacks = []\<rparr>"
    by (simp add: others_paused_iff new_item_def)
  then show ?thesis
    unfolding mount_def by (rule others_paused_fold_effect)
qed

lemma others_paused_step:
  "others_paused f \<Longrightarrow> admissible f ev \<Longrightarrow> others_paused (feed_step ev f)"
  by (cases ev)
     (simp_all add: others_paused_viewable others_paused_status others_paused_togglePlayPause)

lemma others_paused_run:
  "others_paused f \<Longrightarrow> admissible_run f evs \<Longrightarrow> others_paused (run f evs)"
  by (induction evs arbitrary: f) (simp_all add: others_paused_step)

lemma admissible_run_take:
  "admissible_run f evs \<Longrightarrow> admissible_run f (take m evs)"
proof (induction evs arbitrary: f m)
  case Nil
  then show ?case by simp
next
  case (Cons ev evs)
  then show ?case by (cases m) simp_all
qed

lemma playing_clips_active:
  assumes "others_paused f"
  shows "set (playing_clips f) \<subseteq> {i. int i = currentIndex f}"
  using assms by (auto simp add: playing_clips_def others_paused_iff)

lemma playing_clips_at_most_one:
  assumes "others_paused f"
  shows "length (playing_clips f) \<le> 1"
proof -
  have d: "distinct (playing_clips f)"
    by (simp add: playing_clips_def)
  have "set (playing_clips f) \<subseteq> {nat (currentIndex f)}"
    using playing_clips_active [OF assms] by auto
  then have "card (set (playing_clips f)) \<le> card {nat (currentIndex f)}"
    by (intro card_mono) simp_all
  then show ?thesis
    using d by (simp add: distinct_card)
qed

lemma viewable_pauses_former:
  assumes "int v \<noteq> currentIndex f" and "0 \<le> currentIndex f"
    and "nat (currentIndex f) < length (items f)"
  shows "commands (onViewableItemsChanged (v # vs) f)
           = commands f @ [PauseAsync (nat (currentIndex f))]
         \<and> \<not> isPlaying (items (onViewableItemsChanged (v # vs) f) ! nat (currentIndex f))
         \<and> \<not> commanded_to_play
               (items (onViewableItemsChanged (v # vs) f) ! nat (currentIndex f))
         \<and> currentIndex (onViewableItemsChanged (v # vs) f) = int v"
  using assms
  by (auto simp add: onViewableItemsChanged_def rerender_def effect_at_def
        visibility_effect_def feed_ops Let_def nth_update_if split: if_splits)


lemmas feed_eval =
  mount_def upt_rec numeral_3_eq_3 visibility_effect_def feed_ops new_item_def
  handlePlaybackStatusUpdate_def durationSeconds_of_def togglePlayPause_def
  onViewableItemsChanged_def rerender_def effect_at_def playing_clips_def Let_def

text \<open>
  As long as every player reports \<open>isPlaying\<close> only when its last command was a play, and
  the button pressed is the one of the clip on screen, at most one clip has \<open>isPlaying\<close>
  set, and it is the clip at \<open>currentIndex\<close>; a visibility change that moves \<open>currentIndex\<close>
  away from a clip of the list sends it \<open>pauseAsync\<close> and clears its \<open>isPlaying\<close>.
\<close>

lemma others_paused_when_admissible:
  "(admissible_run (mount n k) evs \<longrightarrow>
      length (playing_clips (run (mount n k) (take m evs))) \<le> 1
    \<and> (\<forall>i \<in> set (playing_clips (run (mount n k) (take m evs))).
          int i = currentIndex (run (mount n k) (take m evs))))
   \<and> (int v \<noteq> currentIndex f \<and> 0 \<le> currentIndex f
        \<and> nat (currentIndex f) < length (items f) \<longrightarrow>
        commands (onViewableItemsChanged (v # vs) f)
          = commands f @ [PauseAsync (nat (currentIndex f))]
      \<and> \<not> isPlaying (items (onViewableItemsChanged (v # vs) f) ! nat (currentIndex f))
      \<and> \<not> commanded_to_play
            (items (onViewableItemsChanged (v # vs) f) ! nat (currentIndex f))
      \<and> currentIndex (onViewableItemsChanged (v # vs) f) = int v)"
proof -
  have run_part: "length (playing_clips (run (mount n k) (take m evs))) \<le> 1
    \<and> (\<forall>i \<in> set (playing_clips (run (mount n k) (take m evs))).
          int i = currentIndex (run (mount n k) (take m evs)))"
    if adm: "admissible_run (mount n k) evs"
  proof -
    have "admissible_run (mount n k) (take m evs)"
      using adm by (rule admissible_run_take)
    then have inv: "others_paused (run (mount n k) (take m evs))"
      using others_paused_mount by (rule others_paused_run [rotated])
    show ?thesis
      using playing_clips_at_most_one [OF inv] playing_clips_active [OF inv] by auto
  qed
  show ?thesis
    using run_part viewable_pauses_former [of v f vs] by blast
qed

text \<open>
  C2 fails on the code. The effect pauses the clip that left the screen and clears its flag,
  but \<open>handlePlaybackStatusUpdate\<close> copies \<open>status.isPlaying\<close> into \<open>isPlaying\<close> whether or not
  the item is visible (the auto-play branch beside it does test \<open>isVisible\<close>), and
  \<open>pauseAsync\<close> is not awaited. After the swipe from clip 0 to clip 1, one more status of
  clip 0 that says it plays sets its flag again: clips 0 and 1 both have \<open>isPlaying\<close>.
\<close>

theorem stale_status_two_playing:
  "currentIndex (run (mount 3 0) stale_events) = 1
   \<and> commands (run (mount 3 0) stale_events)
       = [PauseAsync 1, PauseAsync 2, PlayAsync 0, PauseAsync 0, PlayAsync 1]
   \<and> playing_clips (run (mount 3 0) (take 2 stale_events)) = [0]
   \<and> playing_clips (run (mount 3 0) (take 3 stale_events)) = []
   \<and> playing_clips (run (mount 3 0) (take 5 stale_events)) = [1]
   \<and> playing_clips (run (mount 3 0) stale_events) = [0, 1]"
  by (simp add: stale_events_def feed_eval)

text \<open>
  C3 fails on the code. A status report of the player of clip 1, while clip 0 is on screen,
  goes up as a tick of clip 0 at clip 1's position: \<open>VideoItem\<close> calls \<open>onProgress\<close> whether or
  not it is visible, and \<open>handleProgress\<close> of the feed labels every tick with
  \<open>currentIndex\<close>. The watch screen then saves position 0 for clip 0, ten seconds into it.
\<close>

theorem background_tick_reported:
  "admissible_run (mount 3 0) background_events
   \<and> currentIndex (run (mount 3 0) background_events) = 0
   \<and> item_currentTime (items (run (mount 3 0) background_events) ! 0) = 10
   \<and> callbacks (run (mount 3 0) background_events)
       = [Progress 0 0 30, Progress 0 10 30, Progress 0 0 20]
   \<and> written_positions
        (snd (deliver_all env_ok (callbacks (run (mount 3 0) background_events))
               (watch0, world0))) = [0, 10, 0]
   \<and> watchProgress
        (fst (deliver_all env_ok (callbacks (run (mount 3 0) background_events))
               (watch0, world0)))
       = Some \<lparr>filmId = ''f1'', currentClipIndex = 0, currentTime = 0,
               lastWatchedAt = ''2025-01-01T00:00:00.000Z'', userId = []\<rparr>"
proof -
  have cb: "callbacks (run (mount 3 0) background_events)
       = [Progress 0 0 30, Progress 0 10 30, Progress 0 0 20]"
    by (simp add: background_events_def feed_eval)
  have st: "admissible_run (mount 3 0) background_events
   \<and> currentIndex (run (mount 3 0) background_events) = 0
   \<and> item_currentTime (items (run (mount 3 0) background_events) ! 0) = 10"
    by (simp add: background_events_def feed_eval)
  have f: "watch_film watch0 = Some scenario_film \<and> watch_user watch0 = None"
    by (simp add: watch0_def)
  have up: "deliver_all env_ok [Progress 0 0 30, Progress 0 10 30, Progress 0 0 20]
              (watch0, world0)
            = handleProgress env_ok 0 0 20
                (handleProgress env_ok 0 10 30 (handleProgress env_ok 0 0 30 (watch0, world0)))"
    by simp
  have sv: "on_save_second 0 \<and> on_save_second 10"
    by (simp add: on_save_second_def)
  obtain ws1 w1 where s1: "handleProgress env_ok 0 0 30 (watch0, world0) = (ws1, w1)"
    by (cases "handleProgress env_ok 0 0 30 (watch0, world0)")
  obtain ws2 w2 where s2: "handleProgress env_ok 0 10 30 (ws1, w1) = (ws2, w2)"
    by (cases "handleProgress env_ok 0 10 30 (ws1, w1)")
  have f1: "watch_film ws1 = Some scenario_film"
    using handleProgress_film [of env_ok 0 0 30 watch0 world0] s1 f by simp
  have f2: "watch_film ws2 = Some scenario_film"
    using handleProgress_film [of env_ok 0 10 30 ws1 w1] s2 f1 by simp
  have u1: "watch_user ws1 = None"
    using handleProgress_user [of env_ok 0 0 30 watch0 world0] s1 f by simp
  have u2: "watch_user ws2 = None"
    using handleProgress_user [of env_ok 0 10 30 ws1 w1] s2 u1 by simp
  have p1: "written_positions w1 = [0]"
    using handleProgress_written [of watch0 scenario_film env_ok 0 0 30 world0] s1 f sv
    by (simp add: written_positions_def world0_def)
  have p2: "written_positions w2 = [0, 10]"
    using handleProgress_written [OF f1, of env_ok 0 10 30 w1] s2 p1 sv by simp
  have p3: "written_positions (snd (handleProgress env_ok 0 0 20 (ws2, w2))) = [0, 10, 0]"
    using handleProgress_written [OF f2, of env_ok 0 0 20 w2] p2 sv by simp
  have w3: "watchProgress (fst (handleProgress env_ok 0 0 20 (ws2, w2)))
       = Some \<lparr>filmId = ''f1'', currentClipIndex = 0, currentTime = 0,
               lastWatchedAt = ''2025-01-01T00:00:00.000Z'', userId = []\<rparr>"
    using f2 u2 sv
    by (simp add: handleProgress_def saveProgress_loaded scenario_film_def env_ok_def
        user_id_or_empty_def)
  show ?thesis
    using cb st up s1 s2 p3 w3 by simp
qed


text \<open>
  C4 fails on the code. The feed knows nothing of access: on a visibility change it moves
  \<open>currentIndex\<close> before the watch screen is asked, and a visible player that reports it has
  loaded at position 0 is sent \<open>playAsync\<close>. For the premium clip 2 of the scenario film and
  a viewer without premium, the watch screen raises its alert and saves nothing, and the
  clip plays all the same.
\<close>

theorem premium_clip_plays:
  "\<not> canAccessClip scenario_film 2 False
   \<and> admissible_run (mount 5 1) paywall_events
   \<and> currentIndex (run (mount 5 1) paywall_events) = 2
   \<and> commands (run (mount 5 1) paywall_events)
       = [PauseAsync 0, PauseAsync 2, PauseAsync 3, PauseAsync 4, PauseAsync 1, PlayAsync 2]
   \<and> playing_clips (run (mount 5 1) paywall_events) = [2]
   \<and> callbacks (run (mount 5 1) (take 1 paywall_events)) = [ClipChange 2]
   \<and> alerts (fst (handleClipChange env_ok 2 (watch0, world0))) = [''Premium Content'']
   \<and> written_positions (snd (handleClipChange env_ok 2 (watch0, world0))) = []"
proof -
  have acc: "\<not> canAccessClip scenario_film 2 False"
    by (simp add: canAccessClip_def array_get_def scenario_film_def scenario_clip_def
        truthy_flag_def)
  have feed: "admissible_run (mount 5 1) paywall_events
   \<and> currentIndex (run (mount 5 1) paywall_events) = 2
   \<and> commands (run (mount 5 1) paywall_events)
       = [PauseAsync 0, PauseAsync 2, PauseAsync 3, PauseAsync 4, PauseAsync 1, PlayAsync 2]
   \<and> playing_clips (run (mount 5 1) paywall_events) = [2]
   \<and> callbacks (run (mount 5 1) (take 1 paywall_events)) = [ClipChange 2]"
    by (simp add: paywall_events_def feed_eval eval_nat_numeral)
  have f: "watch_film watch0 = Some scenario_film"
    by (simp add: watch0_def)
  have up: "handleClipChange env_ok 2 (watch0, world0)
              = (watch0\<lparr>alerts := alerts watch0 @ [''Premium Content'']\<rparr>, world0)"
    using f acc by (simp add: handleClipChange_def)
  have "alerts watch0 = [] \<and> written_positions world0 = []"
    by (simp add: watch0_def world0_def written_positions_def)
  then show ?thesis
    using acc feed up by simp
qed

end
